theory Spec2Isabelle
  imports Complex_Main
begin

section \<open>The chart facade: \<open>seacharts/seacharts.py\<close>\<close>

subsection \<open>Python values, errors and the external parser\<close>

text \<open>
  The constructor inspects its \<open>origin\<close> and \<open>window_size\<close> arguments with
  \<open>isinstance(_, tuple)\<close> and \<open>len(_) == 2\<close>, so the arguments are modelled as
  Python values that may or may not be tuples. Coordinates are Python integers
  (the defaults of the class and its docstring).
\<close>

datatype pyval = PyTuple "int list" | PyList "int list" | PyInt int | PyNone

text \<open>
  Errors are values. \<open>TypeError\<close> and \<open>KeyError\<close> carry the message or the key
  of the Python exception; \<open>RecursionError\<close> is what Python raises when
  \<open>__getattr__\<close> calls itself without end; \<open>External\<close> is an exception
  that a delegated call (the parser, a layer class) raised and that passes
  through unchanged.
\<close>

datatype 'x error = TypeError string | KeyError string | RecursionError | External 'x

datatype category = Ocean | Surface | Details

fun name_of :: "category \<Rightarrow> string" where
  "name_of Ocean = ''Ocean''"
| "name_of Surface = ''Surface''"
| "name_of Details = ''Details''"

definition ENC_layers :: "category list" where
  "ENC_layers = [Ocean, Surface, Details]"

datatype region = RegionName string | RegionNames "string list"

text \<open>
  The parser and the layer classes live in the separate modules
  \<open>seacharts.files\<close> and \<open>seacharts.features\<close>. Their operations are parameters
  of the model: the parser's constructor,
  its \<open>update_charts_data\<close>, the constructor of a layer class applied to the
  parser's \<open>load\<close>, and the \<open>features\<close> attribute of a layer class. Each call
  may raise.
\<close>

record ('x, 'p, 'l, 'f) ext =
  Parser :: "int list \<Rightarrow> region \<Rightarrow> int list option \<Rightarrow> 'x + 'p"
  update_charts_data :: "'p \<Rightarrow> 'f list \<Rightarrow> bool \<Rightarrow> 'x + 'p"
  layer_init :: "category \<Rightarrow> 'p \<Rightarrow> 'x + 'l"
  features :: "category \<Rightarrow> 'f list"

text \<open>The calls that reach the external modules, in the order they are made.\<close>

datatype 'f call =
    Parser_call "int list" region "int list option"
  | Update_charts_data_call "'f list" bool
  | Layer_call category

text \<open>
  The object under construction. An attribute that has not been assigned is
  \<open>None\<close>. The dictionary \<open>layers\<close> is an association list in insertion order.
\<close>

record ('p, 'l) enc =
  enc_origin :: "int list option"
  enc_window_size :: "int list option"
  enc_parser :: "'p option"
  enc_layers :: "(string \<times> 'l) list option"

definition fresh :: "('p, 'l) enc" where
  "fresh = \<lparr>enc_origin = None, enc_window_size = None, enc_parser = None, enc_layers = None\<rparr>"

subsection \<open>The constructor\<close>

text \<open>\<open>isinstance(v, tuple) and len(v) == 2\<close>, giving the tuple's items.\<close>

definition as_pair :: "pyval \<Rightarrow> int list option" where
  "as_pair v = (case v of PyTuple xs \<Rightarrow> (if length xs = 2 then Some xs else None) | _ \<Rightarrow> None)"

text \<open>\<open>_features = tuple(f for x in _layers for f in x.features)\<close>\<close>

definition ENC_features :: "('x, 'p, 'l, 'f) ext \<Rightarrow> 'f list" where
  "ENC_features e = concat (map (features e) ENC_layers)"

text \<open>
  \<open>{x.__name__: x(self.parser.load) for x in self._layers}\<close>: the layer classes
  are instantiated in order; the first one that raises ends the comprehension.
  The result carries the calls made so far.
\<close>

fun make_layers ::
  "('x, 'p, 'l, 'f) ext \<Rightarrow> 'p \<Rightarrow> category list \<Rightarrow> ('x + (string \<times> 'l) list) \<times> 'f call list" where
  "make_layers e p [] = (Inr [], [])"
| "make_layers e p (x # xs) =
     (case layer_init e x p of
        Inl err \<Rightarrow> (Inl err, [Layer_call x])
      | Inr l \<Rightarrow>
          (case make_layers e p xs of
             (Inl err, cs) \<Rightarrow> (Inl err, Layer_call x # cs)
           | (Inr ls, cs) \<Rightarrow> (Inr ((name_of x, l) # ls), Layer_call x # cs)))"

text \<open>
  \<open>ENC.__init__\<close>. The result is what the call raised (or nothing), the object
  as the call left it, and the external calls it made.
\<close>

definition ENC_init ::
  "('x, 'p, 'l, 'f) ext \<Rightarrow> ('p, 'l) enc \<Rightarrow> pyval \<Rightarrow> pyval \<Rightarrow> region \<Rightarrow> int list option \<Rightarrow> bool
   \<Rightarrow> ('x error + unit) \<times> ('p, 'l) enc \<times> 'f call list" where
  "ENC_init e self origin window_size region depths new_data =
     (case as_pair origin of
        None \<Rightarrow> (Inl (TypeError ''ENC: Origin should be a tuple of size two''), self, [])
      | Some og \<Rightarrow>
          let self = self\<lparr>enc_origin := Some og\<rparr> in
          (case as_pair window_size of
             None \<Rightarrow> (Inl (TypeError ''ENC: Window size should be a tuple of size two''), self, [])
           | Some ws \<Rightarrow>
               let self = self\<lparr>enc_window_size := Some ws\<rparr>;
                   tr_corner = map (\<lambda>(i, j). i + j) (zip og ws);
                   bounding_box = og @ tr_corner;
                   c1 = [Parser_call bounding_box region depths]
               in
               (case Parser e bounding_box region depths of
                  Inl err \<Rightarrow> (Inl (External err), self, c1)
                | Inr p \<Rightarrow>
                    let self = self\<lparr>enc_parser := Some p\<rparr>;
                        c2 = c1 @ [Update_charts_data_call (ENC_features e) new_data]
                    in
                    (case update_charts_data e p (ENC_features e) new_data of
                       Inl err \<Rightarrow> (Inl (External err), self, c2)
                     | Inr p' \<Rightarrow>
                         let self = self\<lparr>enc_parser := Some p'\<rparr> in
                         (case make_layers e p' ENC_layers of
                            (Inl err, c3) \<Rightarrow> (Inl (External err), self, c2 @ c3)
                          | (Inr ls, c3) \<Rightarrow>
                              (Inr (), self\<lparr>enc_layers := Some ls\<rparr>, c2 @ c3))))))"


subsection \<open>Layer lookup\<close>












subsection \<open>A parser that accepts everything\<close>

text \<open>
  External operations that never raise, to run the constructor on concrete
  arguments: the parser object is its bounding box, a layer object is its
  category.
\<close>

definition accepting :: "(unit, int list, category, nat) ext" where
  "accepting =
     \<lparr>Parser = (\<lambda>b r d. Inr b), update_charts_data = (\<lambda>p f n. Inr p),
      layer_init = (\<lambda>c p. Inr c), features = (\<lambda>c. [])\<rparr>"


section \<open>The simulation node: \<open>simcharts/enc/enc.py\<close>\<close>

subsection \<open>State of the node and the world around it\<close>

text \<open>
  The traffic mapping is a Python dictionary from vessel identifier to vessel
  state: an association list, empty for \<open>{}\<close>.
\<close>

type_synonym ('k, 'v) traffic = "('k \<times> 'v) list"

text \<open>
  What the node cannot decide: the wall clock and the traffic subscriber.
  \<open>wall_clock w n\<close> is what the \<open>n\<close>-th call of
  \<open>datetime.datetime.now().timestamp()\<close> returns (counting from zero), and
  \<open>subscriber w n\<close> is the mapping that the \<open>n\<close>-th call of
  \<open>get_local_traffic()\<close> returns. Times are real numbers; no claim depends on
  the rounding of floating-point arithmetic.
\<close>

record ('k, 'v) world =
  wall_clock :: "nat \<Rightarrow> real"
  subscriber :: "nat \<Rightarrow> ('k, 'v) traffic"

text \<open>
  The calls that the node makes into the middleware and the display. While the
  node spins, the middleware may run the static-obstacles handler; the handler
  assigns no attribute of the node.
\<close>

datatype ('k, 'v, 'x) event =
    Add_node 'x
  | Spin_once_node "'x option"
  | Spin_once_subscriber "'x option"
  | Refresh_vessels "('k, 'v) traffic" "int \<times> int" "int \<times> int"
  | Update_static_plot
  | Update_vessels_plot
  | Log_debug string

text \<open>
  The attributes of the node that the simulation reads or writes.
  \<open>extent_size\<close> and \<open>extent_origin\<close> are the properties \<open>size\<close> and
  \<open>origin\<close>, which read the environment's extent. The two counters say how
  often the wall clock and the subscriber have been asked.
\<close>

record ('k, 'v, 'x) node =
  local_traffic :: "('k, 'v) traffic"
  executor :: "'x option"
  sim_callback_time :: real
  extent_size :: "int \<times> int"
  extent_origin :: "int \<times> int"
  events :: "('k, 'v, 'x) event list"
  clock_reads :: nat
  polls :: nat

definition emit :: "('k, 'v, 'x) event \<Rightarrow> ('k, 'v, 'x) node \<Rightarrow> ('k, 'v, 'x) node" where
  "emit ev self = self\<lparr>events := events self @ [ev]\<rparr>"

text \<open>\<open>datetime.datetime.now().timestamp()\<close>\<close>

definition now :: "('k, 'v) world \<Rightarrow> ('k, 'v, 'x) node \<Rightarrow> real \<times> ('k, 'v, 'x) node" where
  "now w self = (wall_clock w (clock_reads self), self\<lparr>clock_reads := clock_reads self + 1\<rparr>)"

subsection \<open>Polling the traffic\<close>

text \<open>\<open>ENC.updateLocalTraffic\<close>\<close>

definition updateLocalTraffic :: "('k, 'v) world \<Rightarrow> ('k, 'v, 'x) node \<Rightarrow> ('k, 'v, 'x) node" where
  "updateLocalTraffic w self =
     (let self = emit (Spin_once_subscriber (executor self)) self;
          new_traffic = subscriber w (polls self);
          self = self\<lparr>polls := polls self + 1\<rparr>
      in if new_traffic \<noteq> [] then self\<lparr>local_traffic := new_traffic\<rparr> else self)"

subsection \<open>The simulation loop\<close>

text \<open>The node together with the local variables of \<open>start_sim\<close>.\<close>

record ('k, 'v, 'x) frame =
  enc_node :: "('k, 'v, 'x) node"
  t_start :: real
  t_i :: real
  t_i_plus_1 :: real

text \<open>The statements of \<open>start_sim\<close> before the loop.\<close>

definition sim_enter :: "('k, 'v) world \<Rightarrow> ('k, 'v, 'x) node \<Rightarrow> 'x \<Rightarrow> ('k, 'v, 'x) frame" where
  "sim_enter w self ex =
     (let self = self\<lparr>executor := Some ex\<rparr>;
          self = emit (Add_node ex) self;
          self = emit (Log_debug ''Simulation started'') self;
          (t0, self) = now w self;
          (t1, self) = now w self;
          (t2, self) = now w self;
          self = updateLocalTraffic w self;
          self = emit (Refresh_vessels (local_traffic self) (extent_size self) (extent_origin self)) self;
          self = emit Update_static_plot self;
          self = emit Update_vessels_plot self
      in \<lparr>enc_node = self, t_start = t0, t_i = t1, t_i_plus_1 = t2 + 5000\<rparr>)"

text \<open>Whether an iteration polls: \<open>delta_t >= self.sim_callback_time\<close>.\<close>

definition poll_due :: "('k, 'v, 'x) frame \<Rightarrow> bool" where
  "poll_due fr = (sim_callback_time (enc_node fr) \<le> t_i_plus_1 fr - t_i fr)"

text \<open>One iteration of \<open>while True\<close>.\<close>

definition loop_body :: "('k, 'v) world \<Rightarrow> ('k, 'v, 'x) frame \<Rightarrow> ('k, 'v, 'x) frame" where
  "loop_body w fr =
     (let self = emit (Spin_once_node (executor (enc_node fr))) (enc_node fr);
          self = emit Update_vessels_plot self;
          (self, ti) =
            (if poll_due fr then
               let self = updateLocalTraffic w self;
                   self =
                     (if 0 < length (local_traffic self) then
                        (emit (Refresh_vessels (local_traffic self) (extent_size self)
                           (extent_origin self)) self)\<lparr>local_traffic := []\<rparr>
                      else self);
                   (t, self) = now w self
               in (self, t)
             else (self, t_i fr));
          (t, self) = now w self
      in fr\<lparr>enc_node := self, t_i := ti, t_i_plus_1 := t\<rparr>)"

text \<open>
  The loop has no exit, so it is a partial function: \<open>None\<close> is the loop that
  never returns.
\<close>

partial_function (option) sim_loop :: "('k, 'v) world \<Rightarrow> ('k, 'v, 'x) frame \<Rightarrow> unit option" where
  "sim_loop w fr = sim_loop w (loop_body w fr)"

text \<open>\<open>ENC.start_sim\<close>\<close>

definition start_sim :: "('k, 'v) world \<Rightarrow> ('k, 'v, 'x) node \<Rightarrow> 'x \<Rightarrow> real \<Rightarrow> unit option" where
  "start_sim w self ex duration = sim_loop w (sim_enter w self ex)"

text \<open>What \<open>start_sim\<close> has done when the loop has run \<open>n\<close> times.\<close>

definition sim_after ::
  "nat \<Rightarrow> ('k, 'v) world \<Rightarrow> ('k, 'v, 'x) node \<Rightarrow> 'x \<Rightarrow> real \<Rightarrow> ('k, 'v, 'x) frame" where
  "sim_after n w self ex duration = (loop_body w ^^ n) (sim_enter w self ex)"

subsection \<open>A world with one vessel\<close>

text \<open>
  A clock that advances one second per reading, a subscriber that reports one
  vessel at its first call and nothing afterwards, and a node as
  \<open>__init__\<close> leaves it, polling once a second.
\<close>

definition one_vessel :: "(nat, string) world" where
  "one_vessel =
     \<lparr>wall_clock = (\<lambda>n. real n),
      subscriber = (\<lambda>n. if n = 0 then [(7, ''ferry'')] else [])\<rparr>"

definition idle :: "(nat, string, unit) node" where
  "idle =
     \<lparr>local_traffic = [], executor = None, sim_callback_time = 1, extent_size = (20000, 16000),
      extent_origin = (38100, 6948700), events = [], clock_reads = 0, polls = 0\<rparr>"

subsection \<open>The static-obstacles service\<close>

text \<open>
  The messages \<open>Point\<close> and \<open>Polygon\<close> and the response of the service
  \<open>GetStaticObstacles\<close>, with the fields that the handler assigns.
\<close>

record 'a Point =
  point_x :: 'a
  point_y :: 'a

record 'a Polygon =
  polygon :: "'a Point list"

record ('t, 'a) response =
  timestamp :: 't
  static_obstacles :: "'a Polygon list"

text \<open>
  The coordinates of a multi-polygon in \<open>__geo_interface__\<close>: a sequence of
  polygons, each a sequence of rings (the outer ring first, then the holes),
  each ring a sequence of points, each point a tuple of numbers. Indexing a
  sequence out of range raises \<open>IndexError\<close>.
\<close>

type_synonym 'a coordinates = "'a list list list list"

datatype callback_error = IndexError

text \<open>The inner loop: \<open>for p in pol\<close>, reading \<open>p[0]\<close> and \<open>p[1]\<close>.\<close>

fun make_points :: "'a list list \<Rightarrow> callback_error + 'a Point list" where
  "make_points [] = Inr []"
| "make_points (p # ps) =
     (case p of
        x # y # _ \<Rightarrow>
          (case make_points ps of
             Inl err \<Rightarrow> Inl err
           | Inr points \<Rightarrow> Inr (\<lparr>point_x = x, point_y = y\<rparr> # points))
      | _ \<Rightarrow> Inl IndexError)"

text \<open>The outer loop: \<open>for _pol in raw_obstacles\<close>, with \<open>pol = _pol[0]\<close>.\<close>

fun make_obstacles :: "'a coordinates \<Rightarrow> callback_error + 'a Polygon list" where
  "make_obstacles [] = Inr []"
| "make_obstacles (pol_rings # rest) =
     (case pol_rings of
        [] \<Rightarrow> Inl IndexError
      | pol # _ \<Rightarrow>
          (case make_points pol of
             Inl err \<Rightarrow> Inl err
           | Inr points \<Rightarrow>
               (case make_obstacles rest of
                  Inl err \<Rightarrow> Inl err
                | Inr obstacles \<Rightarrow> Inr (\<lparr>polygon = points\<rparr> # obstacles))))"

text \<open>
  \<open>ENC._get_static_obstacles_callback\<close>. Of the node it reads the land
  coordinates and the clock. The helper \<open>getTimeStamp\<close> comes from
  \<open>simcharts.utils.helper\<close> and is a parameter of the model. The handler's
  debug messages are left out: they do not reach the response.
\<close>

definition get_static_obstacles_callback ::
  "('c \<Rightarrow> 't) \<Rightarrow> 'a coordinates \<Rightarrow> 'c \<Rightarrow> 'rq \<Rightarrow> ('t, 'a) response
   \<Rightarrow> callback_error + ('t, 'a) response" where
  "get_static_obstacles_callback getTimeStamp land clock request response =
     (case make_obstacles land of
        Inl err \<Rightarrow> Inl err
      | Inr obstacles \<Rightarrow>
          Inr (response\<lparr>timestamp := getTimeStamp clock, static_obstacles := obstacles\<rparr>))"

text \<open>
  The shape that a geometry gives its coordinates: every polygon has its outer
  ring, and every point of an outer ring has at least two numbers.
\<close>

definition well_formed :: "'a coordinates \<Rightarrow> bool" where
  "well_formed land =
     list_all (\<lambda>rings. rings \<noteq> [] \<and> list_all (\<lambda>p. 2 \<le> length p) (hd rings)) land"

section \<open>Properties of the chart facade\<close>




lemma as_pair_Some_iff: "as_pair v = Some xs \<longleftrightarrow> (\<exists>a b. v = PyTuple [a, b] \<and> xs = [a, b])"
proof
  assume "as_pair v = Some xs"
  then have v: "v = PyTuple xs" and len: "length xs = 2"
    by (auto simp: as_pair_def split: pyval.splits if_splits)
  from len obtain a b where "xs = [a, b]"
    by (cases xs; cases "tl xs") auto
  with v show "\<exists>a b. v = PyTuple [a, b] \<and> xs = [a, b]" by blast
next
  assume "\<exists>a b. v = PyTuple [a, b] \<and> xs = [a, b]"
  then show "as_pair v = Some xs" by (auto simp: as_pair_def)
qed



subsection \<open>Errors of the constructor\<close>

lemma ENC_init_bad_origin:
  "as_pair origin = None \<Longrightarrow>
   ENC_init e self origin window_size r d nd
     = (Inl (TypeError ''ENC: Origin should be a tuple of size two''), self, [])"
  by (simp add: ENC_init_def)

lemma ENC_init_bad_window:
  "as_pair origin = Some og \<Longrightarrow> as_pair window_size = None \<Longrightarrow>
   ENC_init e self origin window_size r d nd
     = (Inl (TypeError ''ENC: Window size should be a tuple of size two''),
        self\<lparr>enc_origin := Some og\<rparr>, [])"
  by (simp add: ENC_init_def)




subsection \<open>What a failed construction leaves on the object\<close>

text \<open>
  C6 as stated: a construction that fails with a type error leaves no
  attribute assigned. It fails for a well-formed origin with a malformed window
  size: \<open>self.origin\<close> is assigned before the window size is examined.
\<close>

theorem failed_construction_keeps_origin:
  "fst (ENC_init accepting fresh (PyTuple [1, 2]) (PyList [3, 4]) (RegionName ''Oslo'') None False)
     = Inl (TypeError ''ENC: Window size should be a tuple of size two'')
   \<and> enc_origin (fst (snd (ENC_init accepting fresh (PyTuple [1, 2]) (PyList [3, 4])
         (RegionName ''Oslo'') None False))) = Some [1, 2]
   \<and> fst (snd (ENC_init accepting fresh (PyTuple [1, 2]) (PyList [3, 4])
         (RegionName ''Oslo'') None False)) \<noteq> fresh"
  by (simp add: as_pair_def ENC_init_def fresh_def)

text \<open>
  C6, amended. When the constructor raises for a malformed origin, the object
  is as it was before the call: no attribute has been assigned. When it raises
  for a malformed window size, the origin, which was well-formed, is the one
  attribute that has been assigned: \<open>window_size\<close>, \<open>parser\<close> and \<open>layers\<close>
  are as before.
\<close>

theorem failed_construction_state:
  "(as_pair origin = None \<longrightarrow>
      fst (snd (ENC_init ex self origin window_size region depths new_data)) = self)
   \<and> (as_pair origin = Some og \<and> as_pair window_size = None \<longrightarrow>
      fst (snd (ENC_init ex self origin window_size region depths new_data))
        = self\<lparr>enc_origin := Some og\<rparr>)"
  by (simp add: ENC_init_bad_origin ENC_init_bad_window)

theorem failed_construction_state_witness:
  "as_pair PyNone = None
   \<and> fst (snd (ENC_init accepting fresh PyNone (PyTuple [3, 4]) (RegionName ''Oslo'') None False))
       = fresh
   \<and> as_pair (PyTuple [1, 2]) = Some [1, 2] \<and> as_pair (PyInt 5) = None
   \<and> fst (snd (ENC_init accepting fresh (PyTuple [1, 2]) (PyInt 5) (RegionName ''Oslo'') None False))
       = \<lparr>enc_origin = Some [1, 2], enc_window_size = None, enc_parser = None, enc_layers = None\<rparr>"
  using failed_construction_state [where origin = PyNone and ex = accepting and self = fresh
      and window_size = "PyTuple [3, 4]" and region = "RegionName ''Oslo''" and depths = None
      and new_data = False]
    failed_construction_state [where origin = "PyTuple [1, 2]" and og = "[1, 2]" and ex = accepting
      and self = fresh and window_size = "PyInt 5" and region = "RegionName ''Oslo''"
      and depths = None and new_data = False]
  by (simp add: as_pair_def fresh_def)

subsection \<open>Letter case\<close>









subsection \<open>The constructed object\<close>












section \<open>Properties of the simulation node\<close>

subsection \<open>Polling\<close>

lemma updateLocalTraffic_local_traffic:
  "local_traffic (updateLocalTraffic w self)
     = (if subscriber w (polls self) \<noteq> [] then subscriber w (polls self) else local_traffic self)"
  by (simp add: updateLocalTraffic_def emit_def Let_def)

text \<open>
  C3. A call of \<open>updateLocalTraffic\<close> in which the subscriber yields the empty
  mapping leaves the held mapping as it was; a call in which it yields a
  non-empty mapping \<open>m\<close> leaves exactly \<open>m\<close>, whatever was held before.
\<close>

theorem update_keeps_or_replaces:
  "(subscriber w (polls self) = [] \<longrightarrow>
      local_traffic (updateLocalTraffic w self) = local_traffic self)
   \<and> (subscriber w (polls self) \<noteq> [] \<longrightarrow>
      local_traffic (updateLocalTraffic w self) = subscriber w (polls self))"
  by (simp add: updateLocalTraffic_local_traffic)

theorem update_keeps_or_replaces_witness:
  "subscriber one_vessel (polls (idle\<lparr>local_traffic := [(3, ''tug'')], polls := 1\<rparr>)) = []
   \<and> local_traffic (updateLocalTraffic one_vessel (idle\<lparr>local_traffic := [(3, ''tug'')], polls := 1\<rparr>))
       = [(3, ''tug'')]
   \<and> subscriber one_vessel (polls (idle\<lparr>local_traffic := [(3, ''tug'')]\<rparr>)) \<noteq> []
   \<and> local_traffic (updateLocalTraffic one_vessel (idle\<lparr>local_traffic := [(3, ''tug'')]\<rparr>))
       = [(7, ''ferry'')]"
  using update_keeps_or_replaces [of one_vessel "idle\<lparr>local_traffic := [(3, ''tug'')], polls := 1\<rparr>"]
    update_keeps_or_replaces [of one_vessel "idle\<lparr>local_traffic := [(3, ''tug'')]\<rparr>"]
  by (simp add: one_vessel_def idle_def)

subsection \<open>The loop\<close>

lemma sim_loop_never_returns: "sim_loop w fr = Some r \<Longrightarrow> False"
  by (rule sim_loop.raw_induct [where P = "\<lambda>_ _ _. False"]) blast+

lemma sim_loop_diverges: "sim_loop w fr = None"
  using sim_loop_never_returns [of w fr] by (cases "sim_loop w fr") auto

text \<open>
  C8. The loop of \<open>start_sim\<close> never terminates: from every state in which it
  is entered it does not return, and so \<open>start_sim\<close> does not return either.
\<close>

theorem start_sim_never_returns:
  "sim_loop w fr = None \<and> start_sim w self ex duration = None"
  by (simp add: start_sim_def sim_loop_diverges)

text \<open>
  C9. \<open>start_sim\<close> does not depend on \<open>duration\<close>: for two values of the
  argument, with the same world, node and executor, the state after any number
  of iterations of the loop is the same, and so is the outcome.
\<close>

theorem start_sim_ignores_duration:
  "sim_after n w self ex d1 = sim_after n w self ex d2
   \<and> start_sim w self ex d1 = start_sim w self ex d2"
  by (simp add: sim_after_def start_sim_def)

subsection \<open>How the loop treats the held traffic\<close>

lemma sim_enter_local_traffic:
  "local_traffic (enc_node (sim_enter w self ex))
     = (if subscriber w (polls self) \<noteq> [] then subscriber w (polls self) else local_traffic self)"
  by (simp add: sim_enter_def now_def emit_def updateLocalTraffic_def Let_def)

lemma loop_body_no_poll:
  "\<not> poll_due fr \<Longrightarrow>
   local_traffic (enc_node (loop_body w fr)) = local_traffic (enc_node fr)
   \<and> events (enc_node (loop_body w fr))
       = events (enc_node fr) @ [Spin_once_node (executor (enc_node fr)), Update_vessels_plot]"
  by (simp add: loop_body_def now_def emit_def Let_def)

lemma loop_body_poll:
  "poll_due fr \<Longrightarrow>
   local_traffic (enc_node (loop_body w fr)) = []
   \<and> events (enc_node (loop_body w fr))
       = events (enc_node fr) @
         [Spin_once_node (executor (enc_node fr)), Update_vessels_plot,
          Spin_once_subscriber (executor (enc_node fr))] @
         (if local_traffic (updateLocalTraffic w (enc_node fr)) \<noteq> []
          then [Refresh_vessels (local_traffic (updateLocalTraffic w (enc_node fr)))
                  (extent_size (enc_node fr)) (extent_origin (enc_node fr))]
          else [])"
  by (simp add: loop_body_def now_def emit_def updateLocalTraffic_def Let_def)

text \<open>
  C7 as stated: the held mapping only ever changes to a non-empty update of
  the subscriber. It fails in the first iteration of the loop: the vessel
  received before the loop is held, the subscriber then yields the empty
  mapping, and the iteration ends with the held mapping empty.
\<close>

theorem loop_resets_traffic:
  "local_traffic (enc_node (sim_after 0 one_vessel idle () 0)) = [(7, ''ferry'')]
   \<and> poll_due (sim_after 0 one_vessel idle () 0)
   \<and> subscriber one_vessel (polls (enc_node (sim_after 0 one_vessel idle () 0))) = []
   \<and> local_traffic (enc_node (sim_after (Suc 0) one_vessel idle () 0)) = []"
  by (simp add: sim_after_def sim_enter_def loop_body_def poll_due_def now_def emit_def
      updateLocalTraffic_def one_vessel_def idle_def Let_def)

text \<open>
  C7, amended. The held mapping changes in two ways only. A poll replaces it
  wholesale by a non-empty update of the subscriber and leaves it alone on an
  empty one; this happens once before the loop and in every iteration that
  polls. An iteration that polls then hands the held mapping, if it is not
  empty, to the display and sets it to the empty mapping, so it ends with the
  empty mapping. An iteration that does not poll leaves the mapping as it was.
\<close>

theorem loop_changes_traffic:
  "local_traffic (enc_node (sim_enter w self ex))
     = (if subscriber w (polls self) \<noteq> [] then subscriber w (polls self) else local_traffic self)
   \<and> (\<not> poll_due fr \<longrightarrow>
        local_traffic (enc_node (loop_body w fr)) = local_traffic (enc_node fr)
        \<and> events (enc_node (loop_body w fr))
            = events (enc_node fr) @ [Spin_once_node (executor (enc_node fr)), Update_vessels_plot])
   \<and> (poll_due fr \<longrightarrow>
        local_traffic (enc_node (loop_body w fr)) = []
        \<and> events (enc_node (loop_body w fr))
            = events (enc_node fr) @
              [Spin_once_node (executor (enc_node fr)), Update_vessels_plot,
               Spin_once_subscriber (executor (enc_node fr))] @
              (if local_traffic (updateLocalTraffic w (enc_node fr)) \<noteq> []
               then [Refresh_vessels (local_traffic (updateLocalTraffic w (enc_node fr)))
                       (extent_size (enc_node fr)) (extent_origin (enc_node fr))]
               else []))"
  using sim_enter_local_traffic [of w self ex] loop_body_no_poll [of fr w] loop_body_poll [of fr w]
  by blast

theorem loop_changes_traffic_witness:
  "local_traffic (enc_node (sim_enter one_vessel idle ())) = [(7, ''ferry'')]
   \<and> poll_due (sim_enter one_vessel idle ())
   \<and> local_traffic (enc_node (loop_body one_vessel (sim_enter one_vessel idle ()))) = []
   \<and> events (enc_node (loop_body one_vessel (sim_enter one_vessel idle ())))
       = events (enc_node (sim_enter one_vessel idle ())) @
         [Spin_once_node (Some ()), Update_vessels_plot, Spin_once_subscriber (Some ()),
          Refresh_vessels [(7, ''ferry'')] (20000, 16000) (38100, 6948700)]
   \<and> \<not> poll_due ((sim_enter one_vessel idle ())\<lparr>t_i_plus_1 := 1\<rparr>)
   \<and> local_traffic (enc_node (loop_body one_vessel ((sim_enter one_vessel idle ())\<lparr>t_i_plus_1 := 1\<rparr>)))
       = [(7, ''ferry'')]"
proof -
  have enter: "sim_enter one_vessel idle ()
      = \<lparr>enc_node = idle\<lparr>local_traffic := [(7, ''ferry'')], executor := Some (),
            events := [Add_node (), Log_debug ''Simulation started'', Spin_once_subscriber (Some ()),
              Refresh_vessels [(7, ''ferry'')] (20000, 16000) (38100, 6948700),
              Update_static_plot, Update_vessels_plot],
            clock_reads := 3, polls := 1\<rparr>,
          t_start = 0, t_i = 1, t_i_plus_1 = 5002\<rparr>"
    by (simp add: sim_enter_def now_def emit_def updateLocalTraffic_def one_vessel_def idle_def
        Let_def)
  have due: "poll_due (sim_enter one_vessel idle ())"
    unfolding poll_due_def enter by (simp add: idle_def)
  have not_due: "\<not> poll_due ((sim_enter one_vessel idle ())\<lparr>t_i_plus_1 := 1\<rparr>)"
    unfolding poll_due_def enter by (simp add: idle_def)
  have polled: "local_traffic (updateLocalTraffic one_vessel (enc_node (sim_enter one_vessel idle ())))
      = [(7, ''ferry'')]"
    unfolding enter by (simp add: updateLocalTraffic_local_traffic one_vessel_def idle_def)
  have node_fields: "executor (enc_node (sim_enter one_vessel idle ())) = Some ()"
    "extent_size (enc_node (sim_enter one_vessel idle ())) = (20000, 16000)"
    "extent_origin (enc_node (sim_enter one_vessel idle ())) = (38100, 6948700)"
    "local_traffic (enc_node (sim_enter one_vessel idle ())) = [(7, ''ferry'')]"
    unfolding enter by (simp_all add: idle_def)
  note T = loop_changes_traffic [of one_vessel idle "()" "sim_enter one_vessel idle ()"]
  note U = loop_changes_traffic [of one_vessel idle "()" "(sim_enter one_vessel idle ())\<lparr>t_i_plus_1 := 1\<rparr>"]
  from T due polled node_fields
  have a: "local_traffic (enc_node (loop_body one_vessel (sim_enter one_vessel idle ()))) = []
     \<and> events (enc_node (loop_body one_vessel (sim_enter one_vessel idle ())))
       = events (enc_node (sim_enter one_vessel idle ())) @
         [Spin_once_node (Some ()), Update_vessels_plot, Spin_once_subscriber (Some ()),
          Refresh_vessels [(7, ''ferry'')] (20000, 16000) (38100, 6948700)]"
    by simp
  from U not_due node_fields
  have b: "local_traffic (enc_node (loop_body one_vessel ((sim_enter one_vessel idle ())\<lparr>t_i_plus_1 := 1\<rparr>)))
       = [(7, ''ferry'')]"
    by simp
  from a b due not_due node_fields(4) show ?thesis by simp
qed

subsection \<open>The static-obstacles service\<close>

lemma make_points_pairs:
  "list_all (\<lambda>p. 2 \<le> length p) ps \<Longrightarrow>
   make_points ps = Inr (map (\<lambda>p. \<lparr>point_x = p ! 0, point_y = p ! 1\<rparr>) ps)"
proof (induction ps)
  case Nil
  then show ?case by simp
next
  case (Cons p ps)
  from Cons.prems obtain x y zs where p: "p = x # y # zs"
    by (cases p; cases "tl p") auto
  from Cons show ?case by (simp add: p)
qed

lemma make_obstacles_outer_rings:
  "well_formed land \<Longrightarrow>
   make_obstacles land
     = Inr (map (\<lambda>rings. \<lparr>polygon = map (\<lambda>p. \<lparr>point_x = p ! 0, point_y = p ! 1\<rparr>) (hd rings)\<rparr>) land)"
proof (induction land)
  case Nil
  then show ?case by simp
next
  case (Cons rings land)
  from Cons.prems obtain pol holes where r: "rings = pol # holes"
    by (cases rings) (auto simp: well_formed_def)
  from Cons.prems have pts: "list_all (\<lambda>p. 2 \<le> length p) pol"
    by (simp add: well_formed_def r)
  from Cons.prems have "well_formed land" by (simp add: well_formed_def)
  with Cons.IH show ?case by (simp add: r make_points_pairs [OF pts])
qed

text \<open>
  C1. For land coordinates of \<open>n\<close> polygons, the handler returns a response
  whose \<open>static_obstacles\<close> holds exactly \<open>n\<close> polygon messages; the points of
  the \<open>i\<close>-th message are the coordinate pairs of the first (outer) ring of
  the \<open>i\<close>-th polygon, in the same order; no other ring of the polygon takes
  part; and the timestamp is \<open>getTimeStamp\<close> of the node's clock.
\<close>

theorem static_obstacles_response:
  assumes "well_formed land"
  shows "\<exists>resp. get_static_obstacles_callback getTimeStamp land clock request response = Inr resp
     \<and> length (static_obstacles resp) = length land
     \<and> (\<forall>i < length land.
          polygon (static_obstacles resp ! i)
            = map (\<lambda>p. \<lparr>point_x = p ! 0, point_y = p ! 1\<rparr>) (land ! i ! 0))
     \<and> timestamp resp = getTimeStamp clock"
proof -
  let ?obs = "map (\<lambda>rings. \<lparr>polygon = map (\<lambda>p. \<lparr>point_x = p ! 0, point_y = p ! 1\<rparr>) (hd rings)\<rparr>) land"
  let ?resp = "response\<lparr>timestamp := getTimeStamp clock, static_obstacles := ?obs\<rparr>"
  have run: "get_static_obstacles_callback getTimeStamp land clock request response = Inr ?resp"
    by (simp add: get_static_obstacles_callback_def make_obstacles_outer_rings [OF assms])
  have outer: "\<forall>i < length land.
      polygon (static_obstacles ?resp ! i)
        = map (\<lambda>p. \<lparr>point_x = p ! 0, point_y = p ! 1\<rparr>) (land ! i ! 0)"
  proof (intro allI impI)
    fix i assume i: "i < length land"
    then have "land ! i \<in> set land" by simp
    with assms have "land ! i \<noteq> []" by (auto simp: well_formed_def list_all_iff)
    then have "hd (land ! i) = land ! i ! 0" by (simp add: hd_conv_nth)
    with i show "polygon (static_obstacles ?resp ! i)
        = map (\<lambda>p. \<lparr>point_x = p ! 0, point_y = p ! 1\<rparr>) (land ! i ! 0)"
      by simp
  qed
  from run outer show ?thesis by simp
qed

theorem static_obstacles_response_witness:
  "well_formed [[[[0, 0], [4, 0], [0, 3 :: int]], [[1, 1], [2, 1], [1, 2]]], [[[10, 10, 5], [11, 10, 5]]]]
   \<and> get_static_obstacles_callback (\<lambda>c :: nat. (c, 0 :: nat))
        [[[[0, 0], [4, 0], [0, 3 :: int]], [[1, 1], [2, 1], [1, 2]]], [[[10, 10, 5], [11, 10, 5]]]]
        1700000000 () \<lparr>timestamp = (0, 0), static_obstacles = []\<rparr>
     = Inr \<lparr>timestamp = (1700000000, 0),
         static_obstacles =
           [\<lparr>polygon = [\<lparr>point_x = 0, point_y = 0\<rparr>, \<lparr>point_x = 4, point_y = 0\<rparr>,
               \<lparr>point_x = 0, point_y = 3\<rparr>]\<rparr>,
            \<lparr>polygon = [\<lparr>point_x = 10, point_y = 10\<rparr>, \<lparr>point_x = 11, point_y = 10\<rparr>]\<rparr>]\<rparr>"
proof -
  let ?land = "[[[[0, 0], [4, 0], [0, 3 :: int]], [[1, 1], [2, 1], [1, 2]]], [[[10, 10, 5], [11, 10, 5]]]]"
  have wf: "well_formed ?land" by (simp add: well_formed_def)
  from static_obstacles_response [OF wf, of "\<lambda>c :: nat. (c, 0 :: nat)" 1700000000 "()"
      "\<lparr>timestamp = (0, 0), static_obstacles = []\<rparr>"]
  obtain resp where
    r: "get_static_obstacles_callback (\<lambda>c :: nat. (c, 0 :: nat)) ?land 1700000000 ()
          \<lparr>timestamp = (0, 0), static_obstacles = []\<rparr> = Inr resp"
    by blast
  then have "resp = \<lparr>timestamp = (1700000000, 0),
         static_obstacles =
           [\<lparr>polygon = [\<lparr>point_x = 0, point_y = 0\<rparr>, \<lparr>point_x = 4, point_y = 0\<rparr>,
               \<lparr>point_x = 0, point_y = 3\<rparr>]\<rparr>,
            \<lparr>polygon = [\<lparr>point_x = 10, point_y = 10\<rparr>, \<lparr>point_x = 11, point_y = 10\<rparr>]\<rparr>]\<rparr>"
    by (simp add: get_static_obstacles_callback_def)
  with r wf show ?thesis by simp
qed

end
